theory Spec2Isabelle
  imports Main "HOL-Library.AList"
begin

section \<open>Python values and errors\<close>

text \<open>
  The module \<^verbatim>\<open>discogs_alert/client.py\<close> is dynamically typed: \<^verbatim>\<open>_get\<close> returns
  either the constant \<^verbatim>\<open>False\<close>, or whatever \<^verbatim>\<open>json.loads\<close> decoded, or the raw
  response bytes, and the typed accessors hand that value on to the entity classes.
  All of these live in one universe of values, \<open>pyval\<close>.

  Strings are lists of 8-bit characters read as code points (header values reach the
  program decoded as Latin-1). A \<^verbatim>\<open>dict\<close> with string keys is an association list
  in insertion order; lookup is \<open>map_of\<close> and item assignment is \<open>AList.update\<close>,
  which keeps the position of a key that is already there and appends a new one.
  Python integers are unbounded, \<open>int\<close>; the interpreter's configurable limit on the
  number of digits of a decimal conversion is a resource limit like memory and is
  not part of the model.
\<close>

datatype py_error =
    NotImplementedError
  | TypeError
  | ValueError
  | KeyError
  | JSONDecodeError
  | CalledProcessError
  | AttributeError
  | LibraryError string
    \<comment> \<open>any other exception raised by a library the module calls, by name\<close>

datatype pyfloat = Finite int int | PosInf | NegInf | NaN
  \<comment> \<open>\<open>Finite m e\<close> is the double \<open>m * 2 ^ e\<close>; no function below inspects a float\<close>

datatype entity_kind = Release | Listing | UserList | ReleaseStats

datatype pyval =
    PNone
  | PBool bool
  | PInt int
  | PFloat pyfloat
  | PStr string
  | PBytes string
  | PList "pyval list"
  | PDict "(string \<times> pyval) list"
  | PEntity entity_kind "(string \<times> pyval) list"
  | PObject string
    \<comment> \<open>an object of some other class, by name (what the listings parser returns)\<close>

type_synonym kwargs = "(string \<times> pyval) list"

subsection \<open>\<^verbatim>\<open>int(x)\<close> for \<^verbatim>\<open>x\<close> a string or \<^verbatim>\<open>None\<close>\<close>

text \<open>
  \<^verbatim>\<open>resp.headers.get(name)\<close> is a \<^verbatim>\<open>str\<close> or \<^verbatim>\<open>None\<close>. \<^verbatim>\<open>int(None)\<close> raises
  \<^verbatim>\<open>TypeError\<close>. \<^verbatim>\<open>int(s)\<close> accepts optional surrounding whitespace, an optional
  sign and a non-empty run of decimal digits in which single underscores may stand
  between two digits; anything else raises \<^verbatim>\<open>ValueError\<close>. In the Latin-1 range the
  whitespace characters are 9 to 13, 32, 133 and 160, and the decimal digits are
  \<^verbatim>\<open>0\<close> to \<^verbatim>\<open>9\<close>.
\<close>

definition py_isspace :: "char \<Rightarrow> bool" where
  "py_isspace c = (of_char c \<in> {9, 10, 11, 12, 13, 32, 133, 160 :: nat})"

definition py_isdigit :: "char \<Rightarrow> bool" where
  "py_isdigit c = (48 \<le> (of_char c :: nat) \<and> (of_char c :: nat) \<le> 57)"

definition digit_value :: "char \<Rightarrow> nat" where
  "digit_value c = of_char c - 48"

definition py_strip :: "string \<Rightarrow> string" where
  "py_strip s = rev (dropWhile py_isspace (rev (dropWhile py_isspace s)))"

fun digits_value :: "nat \<Rightarrow> string \<Rightarrow> nat option" where
  "digits_value acc [] = Some acc"
| "digits_value acc (c # cs) =
     (if py_isdigit c then digits_value (10 * acc + digit_value c) cs
      else if c = CHR ''_'' then
        (case cs of
           [] \<Rightarrow> None
         | d # _ \<Rightarrow> if py_isdigit d then digits_value acc cs else None)
      else None)"

definition decimal_value :: "string \<Rightarrow> nat option" where
  "decimal_value ds =
     (case ds of
        [] \<Rightarrow> None
      | d # _ \<Rightarrow> if py_isdigit d then digits_value 0 ds else None)"

definition py_int_str :: "string \<Rightarrow> py_error + int" where
  "py_int_str s =
     (case py_strip s of
        [] \<Rightarrow> Inl ValueError
      | c # cs \<Rightarrow>
          if c = CHR ''-'' then
            (case decimal_value cs of None \<Rightarrow> Inl ValueError | Some n \<Rightarrow> Inr (- int n))
          else if c = CHR ''+'' then
            (case decimal_value cs of None \<Rightarrow> Inl ValueError | Some n \<Rightarrow> Inr (int n))
          else
            (case decimal_value (c # cs) of None \<Rightarrow> Inl ValueError | Some n \<Rightarrow> Inr (int n)))"

definition py_int :: "string option \<Rightarrow> py_error + int" where
  "py_int x = (case x of None \<Rightarrow> Inl TypeError | Some s \<Rightarrow> py_int_str s)"

subsection \<open>\<^verbatim>\<open>str(n)\<close> for an integer, as an f-string renders it\<close>

fun str_nat :: "nat \<Rightarrow> string" where
  "str_nat n =
     (if n < 10 then [char_of (48 + n)]
      else str_nat (n div 10) @ [char_of (48 + n mod 10)])"

declare str_nat.simps [simp del]

definition str_int :: "int \<Rightarrow> string" where
  "str_int i = (if i < 0 then CHR ''-'' # str_nat (nat (- i)) else str_nat (nat i))"

section \<open>The world outside the module\<close>

text \<open>
  \<^verbatim>\<open>requests.request(method, url, params=..., data=..., headers=...)\<close> sends one
  HTTP request. What is sent is a record; what comes back is a response with its
  body, its status code and its headers. \<open>headers resp name\<close> is
  \<^verbatim>\<open>resp.headers.get(name)\<close>: the value, or \<open>None\<close> when the header is absent.
\<close>

record http_request =
  req_method :: string
  req_url :: string
  req_params :: "(string \<times> string) list"
  req_data :: pyval
  req_headers :: pyval

record http_response =
  content :: string
  status_code :: int
  headers :: "string \<Rightarrow> string option"

text \<open>
  Everything the module calls and does not define is a field of the environment:
  the network, \<^verbatim>\<open>json.loads\<close>, the browser, the operating system, and the two
  modules of the repository that are not part of this source file.
\<close>

record env =
  requests_request :: "http_request \<Rightarrow> py_error + http_response"
    \<comment> \<open>the reply of the service, or the exception \<^verbatim>\<open>requests\<close> raises\<close>
  json_loads :: "string \<Rightarrow> py_error + pyval"
    \<comment> \<open>\<^verbatim>\<open>json.loads\<close>: the decoded value, or the exception it raises\<close>
  schema :: "entity_kind \<Rightarrow> kwargs \<Rightarrow> py_error option"
    \<comment> \<open>the exception an entity class raises for these keyword arguments, if any\<close>
  scrape_listings_from_marketplace :: "string \<Rightarrow> int \<Rightarrow> py_error + pyval"
    \<comment> \<open>\<^verbatim>\<open>da_scrape.scrape_listings_from_marketplace(page_source, release_id)\<close>\<close>
  driver_get :: "string \<Rightarrow> py_error + string"
    \<comment> \<open>the page source after the browser has loaded a URL, or the driver's exception\<close>
  sys_platform :: string
  which_chromedriver :: "py_error + string"
    \<comment> \<open>\<^verbatim>\<open>subprocess.check_output(['which', 'chromedriver']).decode().strip()\<close>\<close>
  chromedriver_install :: "py_error + string"
    \<comment> \<open>\<^verbatim>\<open>ChromeDriverManager(chrome_type=ChromeType.CHROMIUM).install()\<close>\<close>
  user_agent_random :: string
    \<comment> \<open>\<^verbatim>\<open>UserAgent().random\<close> at the moment it is read\<close>
  os_geteuid :: nat
  webdriver_Chrome :: "string \<Rightarrow> string \<Rightarrow> string list \<Rightarrow> py_error + string"
    \<comment> \<open>starting the browser for a driver path, a log path and the option arguments:
        the source of its first page, or the exception\<close>

text \<open>
  The effects of an operation on the outside are returned as a trace of events, in
  the order in which they happen.
\<close>

datatype event =
    Requested http_request
    \<comment> \<open>one call of \<^verbatim>\<open>requests.request\<close>\<close>
  | Logged int string
    \<comment> \<open>the \<^verbatim>\<open>logger.info\<close> call of \<^verbatim>\<open>_get\<close>, with the status code and the content it
        interpolates\<close>
  | Navigated string
    \<comment> \<open>one call of \<^verbatim>\<open>self.driver.get\<close>\<close>

subsection \<open>Entities\<close>

text \<open>
  Modelled from the spec: the module \<^verbatim>\<open>discogs_alert.entities\<close> (the classes
  \<^verbatim>\<open>Release\<close>, \<^verbatim>\<open>Listing\<close>, \<^verbatim>\<open>UserList\<close>, \<^verbatim>\<open>ReleaseStats\<close>) is imported by
  \<^verbatim>\<open>client.py\<close> and its source is missing. The spec
  treats the entity layer as a schema that the client populates from a mapping: an
  entity is its kind together with the mapping it was populated from, and a field of
  the entity is the value the mapping has under that name. Whether a class accepts a
  mapping is the parameter \<open>schema\<close>.

  The call \<^verbatim>\<open>Cls(**x)\<close> itself is Python: it raises \<^verbatim>\<open>TypeError\<close> before the class is
  entered unless \<^verbatim>\<open>x\<close> is a mapping.
\<close>

definition construct :: "env \<Rightarrow> entity_kind \<Rightarrow> pyval \<Rightarrow> py_error + pyval" where
  "construct E k x =
     (case x of
        PDict kw \<Rightarrow> (case schema E k kw of None \<Rightarrow> Inr (PEntity k kw) | Some e \<Rightarrow> Inl e)
      | _ \<Rightarrow> Inl TypeError)"

definition field :: "pyval \<Rightarrow> string \<Rightarrow> pyval option" where
  "field v name = (case v of PEntity k kw \<Rightarrow> map_of kw name | _ \<Rightarrow> None)"

text \<open>The list comprehension \<^verbatim>\<open>[Cls(**item) for item in xs]\<close>: the first failure ends it.\<close>

fun construct_all :: "env \<Rightarrow> entity_kind \<Rightarrow> pyval list \<Rightarrow> py_error + pyval list" where
  "construct_all E k [] = Inr []"
| "construct_all E k (x # xs) =
     (case construct E k x of
        Inl e \<Rightarrow> Inl e
      | Inr v \<Rightarrow> (case construct_all E k xs of Inl e \<Rightarrow> Inl e | Inr vs \<Rightarrow> Inr (v # vs)))"

subsection \<open>Subscription, iteration and item assignment\<close>

text \<open>
  \<^verbatim>\<open>x["items"]\<close>: a \<^verbatim>\<open>dict\<close> looks the key up and raises \<^verbatim>\<open>KeyError\<close> when it is
  missing; every other value that can reach the expression raises \<^verbatim>\<open>TypeError\<close>
  (not subscriptable, or indices must be integers).
\<close>

definition getitem :: "pyval \<Rightarrow> string \<Rightarrow> py_error + pyval" where
  "getitem x key =
     (case x of
        PDict kw \<Rightarrow> (case map_of kw key of None \<Rightarrow> Inl KeyError | Some v \<Rightarrow> Inr v)
      | _ \<Rightarrow> Inl TypeError)"

definition setitem :: "pyval \<Rightarrow> string \<Rightarrow> pyval \<Rightarrow> py_error + pyval" where
  "setitem x key v =
     (case x of
        PDict kw \<Rightarrow> Inr (PDict (AList.update key v kw))
      | _ \<Rightarrow> Inl TypeError)"

text \<open>
  \<^verbatim>\<open>for item in x\<close>: a list yields its elements, a \<^verbatim>\<open>dict\<close> its keys, a string its
  characters and a bytes object its bytes as integers; the other values are not
  iterable.
\<close>

definition py_iter :: "pyval \<Rightarrow> py_error + pyval list" where
  "py_iter x =
     (case x of
        PList xs \<Rightarrow> Inr xs
      | PDict kw \<Rightarrow> Inr (map (\<lambda>p. PStr (fst p)) kw)
      | PStr s \<Rightarrow> Inr (map (\<lambda>c. PStr [c]) s)
      | PBytes s \<Rightarrow> Inr (map (\<lambda>c. PInt (of_char c)) s)
      | _ \<Rightarrow> Inl TypeError)"

section \<open>The clients\<close>

text \<open>
  \<^verbatim>\<open>Client\<close> has two subclasses. The fields of \<^verbatim>\<open>Client.__init__\<close> are the record
  \<open>client\<close>; what a subclass adds (\<^verbatim>\<open>user_token\<close>, \<^verbatim>\<open>driver\<close>) is carried by \<open>kind\<close>,
  which also decides which \<^verbatim>\<open>_request\<close> a call of \<^verbatim>\<open>self._request\<close> reaches. The three
  rate-limit fields are \<open>None\<close> or an integer.
\<close>

record webdriver =
  service_path :: string
  service_log_path :: string
  arguments :: "string list"
  page_source :: string

datatype user_agent_value =
    AgentString string
  | FakeUserAgent
    \<comment> \<open>the object \<^verbatim>\<open>fake_useragent.UserAgent()\<close>\<close>

datatype client_kind =
    BaseClient
  | UserTokenClient string
  | AnonClient webdriver

record client =
  user_agent :: user_agent_value
  verbose :: bool
  rate_limit :: "int option"
  rate_limit_used :: "int option"
  rate_limit_remaining :: "int option"
  kind :: client_kind

definition base_url :: string where
  "base_url = ''https://api.discogs.com''"

definition base_url_non_api :: string where
  "base_url_non_api = ''https://www.discogs.com''"

subsection \<open>Construction\<close>

definition Client_init :: "string \<Rightarrow> client" where
  "Client_init ua =
     \<lparr>user_agent = AgentString ua, verbose = False, rate_limit = None,
      rate_limit_used = None, rate_limit_remaining = None, kind = BaseClient\<rparr>"

definition UserTokenClient_init :: "string \<Rightarrow> string \<Rightarrow> client" where
  "UserTokenClient_init ua token = (Client_init ua)\<lparr>kind := UserTokenClient token\<rparr>"

text \<open>
  \<^verbatim>\<open>get_driver_path\<close> catches \<^verbatim>\<open>subprocess.CalledProcessError\<close> only, and then
  installs a driver; any other exception of the lookup propagates.
\<close>

definition get_driver_path :: "env \<Rightarrow> py_error + string" where
  "get_driver_path E =
     (case which_chromedriver E of
        Inr path \<Rightarrow> Inr path
      | Inl e \<Rightarrow> if e = CalledProcessError then chromedriver_install E else Inl e)"

definition options_arguments :: "env \<Rightarrow> string list" where
  "options_arguments E =
     [''--disable-gpu'', ''--disable-dev-shm-usage'', ''--disable-infobars'',
      ''--headless'', ''--incognito'', ''--user-agent='' @ user_agent_random E]
     @ (if os_geteuid E = 0 then [''--no-sandbox''] else [])"

definition log_path :: "env \<Rightarrow> string" where
  "log_path E =
     (if sys_platform E \<in> {''linux'', ''linux2'', ''darwin''} then ''/dev/null'' else ''NUL'')"

definition AnonClient_init :: "env \<Rightarrow> string \<Rightarrow> py_error + client" where
  "AnonClient_init E ua =
     (case get_driver_path E of
        Inl e \<Rightarrow> Inl e
      | Inr path \<Rightarrow>
          (case webdriver_Chrome E path (log_path E) (options_arguments E) of
             Inl e \<Rightarrow> Inl e
           | Inr page \<Rightarrow>
               Inr ((Client_init ua)
                 \<lparr>user_agent := FakeUserAgent,
                  kind := AnonClient
                    \<lparr>service_path = path, service_log_path = log_path E,
                     arguments = options_arguments E, page_source = page\<rparr>\<rparr>)))"

subsection \<open>The transports\<close>

text \<open>
  An operation returns what Python returns or raises, the client as the operation
  leaves it (a field assigned before an exception stays assigned), and the trace of
  its effects.
\<close>

type_synonym 'a outcome = "(py_error + 'a) \<times> client \<times> event list"

definition Client_request ::
  "string \<Rightarrow> string \<Rightarrow> pyval \<Rightarrow> pyval \<Rightarrow> client \<Rightarrow> (string \<times> int) outcome" where
  "Client_request method url data hdrs self = (Inl NotImplementedError, self, [])"

definition UserTokenClient_request ::
  "env \<Rightarrow> string \<Rightarrow> string \<Rightarrow> string \<Rightarrow> pyval \<Rightarrow> pyval \<Rightarrow> client
     \<Rightarrow> (string \<times> int) outcome" where
  "UserTokenClient_request E user_token method url data hdrs self =
     (let rq = \<lparr>req_method = method, req_url = url, req_params = [(''token'', user_token)],
                req_data = data, req_headers = hdrs\<rparr>
      in case requests_request E rq of
           Inl e \<Rightarrow> (Inl e, self, [Requested rq])
         | Inr resp \<Rightarrow>
             (case py_int (headers resp ''X-Discogs-Ratelimit'') of
                Inl e \<Rightarrow> (Inl e, self, [Requested rq])
              | Inr a \<Rightarrow>
                  (case py_int (headers resp ''X-Discogs-Ratelimit-Used'') of
                     Inl e \<Rightarrow> (Inl e, self\<lparr>rate_limit := Some a\<rparr>, [Requested rq])
                   | Inr b \<Rightarrow>
                       (case py_int (headers resp ''X-Discogs-Ratelimit-Remaining'') of
                          Inl e \<Rightarrow>
                            (Inl e, self\<lparr>rate_limit := Some a, rate_limit_used := Some b\<rparr>,
                             [Requested rq])
                        | Inr c \<Rightarrow>
                            (Inr (content resp, status_code resp),
                             self\<lparr>rate_limit := Some a, rate_limit_used := Some b,
                                  rate_limit_remaining := Some c\<rparr>,
                             [Requested rq])))))"

text \<open>\<^verbatim>\<open>self._request(...)\<close>: the method of the class of \<^verbatim>\<open>self\<close>. \<^verbatim>\<open>AnonClient\<close> inherits
  the one of \<^verbatim>\<open>Client\<close>.\<close>

definition request ::
  "env \<Rightarrow> string \<Rightarrow> string \<Rightarrow> pyval \<Rightarrow> pyval \<Rightarrow> client \<Rightarrow> (string \<times> int) outcome" where
  "request E method url data hdrs self =
     (case kind self of
        UserTokenClient user_token \<Rightarrow> UserTokenClient_request E user_token method url data hdrs self
      | BaseClient \<Rightarrow> Client_request method url data hdrs self
      | AnonClient d \<Rightarrow> Client_request method url data hdrs self)"

subsection \<open>The primitives of \<^verbatim>\<open>Client\<close>\<close>

definition Client_get :: "env \<Rightarrow> string \<Rightarrow> bool \<Rightarrow> client \<Rightarrow> pyval outcome" where
  "Client_get E url is_api self =
     (case request E ''GET'' url PNone PNone self of
        (Inl e, self', tr) \<Rightarrow> (Inl e, self', tr)
      | (Inr (response_content, status), self', tr) \<Rightarrow>
          if status \<noteq> 200 then (Inr (PBool False), self', tr @ [Logged status response_content])
          else ((if is_api then json_loads E response_content
                 else Inr (PBytes response_content)), self', tr))"

definition Client_delete :: "env \<Rightarrow> string \<Rightarrow> bool \<Rightarrow> client \<Rightarrow> (string \<times> int) outcome" where
  "Client_delete E url is_api self = request E ''DELETE'' url PNone PNone self"

definition Client_patch ::
  "env \<Rightarrow> string \<Rightarrow> pyval \<Rightarrow> bool \<Rightarrow> client \<Rightarrow> (string \<times> int) outcome" where
  "Client_patch E url data is_api self = request E ''PATCH'' url data PNone self"

definition Client_post ::
  "env \<Rightarrow> string \<Rightarrow> pyval \<Rightarrow> bool \<Rightarrow> client \<Rightarrow> (string \<times> int) outcome" where
  "Client_post E url data is_api self = request E ''POST'' url data PNone self"

definition Client_put ::
  "env \<Rightarrow> string \<Rightarrow> pyval \<Rightarrow> bool \<Rightarrow> client \<Rightarrow> (string \<times> int) outcome" where
  "Client_put E url data is_api self = request E ''PUT'' url data PNone self"

subsection \<open>The typed accessors\<close>

definition get_list :: "env \<Rightarrow> int \<Rightarrow> client \<Rightarrow> pyval outcome" where
  "get_list E list_id self =
     (case Client_get E (base_url @ ''/lists/'' @ str_int list_id) True self of
        (Inl e, self', tr) \<Rightarrow> (Inl e, self', tr)
      | (Inr user_list_dict, self', tr) \<Rightarrow>
          (case getitem user_list_dict ''items'' of
             Inl e \<Rightarrow> (Inl e, self', tr)
           | Inr raw_items \<Rightarrow>
               (case py_iter raw_items of
                  Inl e \<Rightarrow> (Inl e, self', tr)
                | Inr its \<Rightarrow>
                    (case construct_all E Release its of
                       Inl e \<Rightarrow> (Inl e, self', tr)
                     | Inr releases \<Rightarrow>
                         (case setitem user_list_dict ''items'' (PList releases) of
                            Inl e \<Rightarrow> (Inl e, self', tr)
                          | Inr d \<Rightarrow> (construct E UserList d, self', tr))))))"

definition get_listing :: "env \<Rightarrow> int \<Rightarrow> client \<Rightarrow> pyval outcome" where
  "get_listing E listing_id self =
     (case Client_get E (base_url @ ''/marketplace/listings/'' @ str_int listing_id) True self of
        (Inl e, self', tr) \<Rightarrow> (Inl e, self', tr)
      | (Inr listing_dict, self', tr) \<Rightarrow> (construct E Listing listing_dict, self', tr))"

definition get_release :: "env \<Rightarrow> int \<Rightarrow> client \<Rightarrow> pyval outcome" where
  "get_release E release_id self =
     (case Client_get E (base_url @ ''/releases/'' @ str_int release_id) True self of
        (Inl e, self', tr) \<Rightarrow> (Inl e, self', tr)
      | (Inr release_dict, self', tr) \<Rightarrow> (construct E Release release_dict, self', tr))"

definition isinstance_dict :: "pyval \<Rightarrow> bool" where
  "isinstance_dict x = (case x of PDict kw \<Rightarrow> True | _ \<Rightarrow> False)"

definition get_release_stats :: "env \<Rightarrow> int \<Rightarrow> client \<Rightarrow> pyval outcome" where
  "get_release_stats E release_id self =
     (case Client_get E (base_url @ ''/marketplace/stats/'' @ str_int release_id) True self of
        (Inl e, self', tr) \<Rightarrow> (Inl e, self', tr)
      | (Inr release_stats_dict, self', tr) \<Rightarrow>
          if isinstance_dict release_stats_dict
          then (construct E ReleaseStats release_stats_dict, self', tr)
          else (Inr (PBool False), self', tr))"

definition get_wantlist :: "env \<Rightarrow> string \<Rightarrow> client \<Rightarrow> pyval outcome" where
  "get_wantlist E username self =
     Client_get E (base_url @ ''/users/'' @ username @ ''/wants'') True self"

subsection \<open>The scraping client\<close>

text \<open>
  \<^verbatim>\<open>get_marketplace_listings\<close> is a method of \<^verbatim>\<open>AnonClient\<close>: on a client of another
  class the attribute does not exist and the call raises \<^verbatim>\<open>AttributeError\<close>.
\<close>

definition marketplace_url :: "int \<Rightarrow> string" where
  "marketplace_url release_id =
     base_url_non_api @ ''/sell/release/'' @ str_int release_id @ ''?ev=rb&sort=price%2Casc''"

definition get_marketplace_listings :: "env \<Rightarrow> int \<Rightarrow> client \<Rightarrow> pyval outcome" where
  "get_marketplace_listings E release_id self =
     (case kind self of
        AnonClient d \<Rightarrow>
          (case driver_get E (marketplace_url release_id) of
             Inl e \<Rightarrow> (Inl e, self, [Navigated (marketplace_url release_id)])
           | Inr page \<Rightarrow>
               (scrape_listings_from_marketplace E page release_id,
                self\<lparr>kind := AnonClient (d\<lparr>page_source := page\<rparr>)\<rparr>,
                [Navigated (marketplace_url release_id)]))
      | BaseClient \<Rightarrow> (Inl AttributeError, self, [])
      | UserTokenClient t \<Rightarrow> (Inl AttributeError, self, []))"

subsection \<open>Operations in sequence\<close>

text \<open>
  The public and the underscore-prefixed methods of a client, as data, so that
  statements can range over all of them. \<open>effect\<close> is what one call leaves behind: the
  client and the trace. \<open>run\<close> performs calls one after the other; each comes with the
  environment in which it is made, since the service may answer differently every time.
\<close>

datatype operation =
    Get string bool
  | Delete string bool
  | Patch string pyval bool
  | Post string pyval bool
  | Put string pyval bool
  | GetList int
  | GetListing int
  | GetRelease int
  | GetReleaseStats int
  | GetWantlist string
  | GetMarketplaceListings int

fun effect :: "env \<Rightarrow> operation \<Rightarrow> client \<Rightarrow> client \<times> event list" where
  "effect E (Get url is_api) self = snd (Client_get E url is_api self)"
| "effect E (Delete url is_api) self = snd (Client_delete E url is_api self)"
| "effect E (Patch url data is_api) self = snd (Client_patch E url data is_api self)"
| "effect E (Post url data is_api) self = snd (Client_post E url data is_api self)"
| "effect E (Put url data is_api) self = snd (Client_put E url data is_api self)"
| "effect E (GetList list_id) self = snd (get_list E list_id self)"
| "effect E (GetListing listing_id) self = snd (get_listing E listing_id self)"
| "effect E (GetRelease release_id) self = snd (get_release E release_id self)"
| "effect E (GetReleaseStats release_id) self = snd (get_release_stats E release_id self)"
| "effect E (GetWantlist username) self = snd (get_wantlist E username self)"
| "effect E (GetMarketplaceListings release_id) self =
     snd (get_marketplace_listings E release_id self)"

fun run :: "(env \<times> operation) list \<Rightarrow> client \<Rightarrow> client \<times> event list" where
  "run [] self = (self, [])"
| "run ((E, opn) # rest) self =
     (case effect E opn self of
        (self', tr) \<Rightarrow> (case run rest self' of (self'', tr') \<Rightarrow> (self'', tr @ tr')))"

fun is_request :: "event \<Rightarrow> bool" where
  "is_request (Requested rq) = True"
| "is_request (Logged status body) = False"
| "is_request (Navigated url) = False"

definition rate_limits :: "client \<Rightarrow> int option \<times> int option \<times> int option" where
  "rate_limits self = (rate_limit self, rate_limit_used self, rate_limit_remaining self)"

subsection \<open>Vocabulary of the statements\<close>

text \<open>The request the token client sends for a method, a URL, a body and headers.\<close>

definition token_request ::
  "string \<Rightarrow> string \<Rightarrow> string \<Rightarrow> pyval \<Rightarrow> pyval \<Rightarrow> http_request" where
  "token_request user_token method url data hdrs =
     \<lparr>req_method = method, req_url = url, req_params = [(''token'', user_token)],
      req_data = data, req_headers = hdrs\<rparr>"

text \<open>A response carries the three rate-limit headers, and they read as \<open>a\<close>, \<open>b\<close>, \<open>c\<close>.\<close>

definition carries_rate_limits :: "http_response \<Rightarrow> int \<Rightarrow> int \<Rightarrow> int \<Rightarrow> bool" where
  "carries_rate_limits resp a b c =
     (py_int (headers resp ''X-Discogs-Ratelimit'') = Inr a
      \<and> py_int (headers resp ''X-Discogs-Ratelimit-Used'') = Inr b
      \<and> py_int (headers resp ''X-Discogs-Ratelimit-Remaining'') = Inr c)"

subsection \<open>A sample service\<close>

text \<open>
  Concrete inputs for the statements below: a service that answers every request
  with one status, one body and the given headers; the result of \<^verbatim>\<open>json.loads\<close> on
  that body, given next to it; entity classes that accept every mapping; a parser
  that returns a \<^verbatim>\<open>Listings\<close> object; and a browser that renders one page.
\<close>

definition sample_headers :: "string \<Rightarrow> string option" where
  "sample_headers =
     [''X-Discogs-Ratelimit'' \<mapsto> ''60'', ''X-Discogs-Ratelimit-Used'' \<mapsto> ''1'',
      ''X-Discogs-Ratelimit-Remaining'' \<mapsto> ''59'']"

definition partial_headers :: "string \<Rightarrow> string option" where
  "partial_headers =
     [''X-Discogs-Ratelimit'' \<mapsto> ''60'', ''X-Discogs-Ratelimit-Used'' \<mapsto> ''1'']"

definition sample_response :: "int \<Rightarrow> string \<Rightarrow> (string \<Rightarrow> string option) \<Rightarrow> http_response" where
  "sample_response status body hs = \<lparr>content = body, status_code = status, headers = hs\<rparr>"

definition sample_env ::
  "int \<Rightarrow> string \<Rightarrow> (string \<Rightarrow> string option) \<Rightarrow> (py_error + pyval) \<Rightarrow> env" where
  "sample_env status body hs decoded =
     \<lparr>requests_request = (\<lambda>rq. Inr (sample_response status body hs)),
      json_loads = (\<lambda>s. decoded),
      schema = (\<lambda>k kw. None),
      scrape_listings_from_marketplace = (\<lambda>page release_id. Inr (PObject ''Listings'')),
      driver_get = (\<lambda>url. Inr ''<html></html>''),
      sys_platform = ''linux'',
      which_chromedriver = Inr ''/usr/bin/chromedriver'',
      chromedriver_install = Inr ''/root/.wdm/chromedriver'',
      user_agent_random = ''Mozilla/5.0'',
      os_geteuid = 0,
      webdriver_Chrome = (\<lambda>path log_to args. Inr [])\<rparr>"

definition sample_token_client :: client where
  "sample_token_client = UserTokenClient_init ''agent'' ''secret''"

definition sample_driver :: webdriver where
  "sample_driver =
     \<lparr>service_path = ''/usr/bin/chromedriver'', service_log_path = ''/dev/null'',
      arguments = [''--headless''], page_source = []\<rparr>"

definition sample_anon_client :: client where
  "sample_anon_client =
     (Client_init ''agent'')\<lparr>user_agent := FakeUserAgent, kind := AnonClient sample_driver\<rparr>"

section \<open>Facts about the sample service\<close>

lemma sample_headers_carry: "carries_rate_limits (sample_response st body sample_headers) 60 1 59"
  by (simp add: carries_rate_limits_def sample_response_def sample_headers_def py_int_def
      py_int_str_def py_strip_def py_isspace_def decimal_value_def py_isdigit_def digit_value_def)

lemma sample_env_simps:
  "requests_request (sample_env st body hs decoded) rq = Inr (sample_response st body hs)"
  "json_loads (sample_env st body hs decoded) s = decoded"
  "schema (sample_env st body hs decoded) k kw = None"
  "scrape_listings_from_marketplace (sample_env st body hs decoded) page rid = Inr (PObject ''Listings'')"
  "driver_get (sample_env st body hs decoded) u = Inr ''<html></html>''"
  by (simp_all add: sample_env_def)

lemma sample_response_simps:
  "content (sample_response st body hs) = body"
  "status_code (sample_response st body hs) = st"
  "headers (sample_response st body hs) = hs"
  by (simp_all add: sample_response_def)

lemma sample_token_client_kind: "kind sample_token_client = UserTokenClient ''secret''"
  by (simp add: sample_token_client_def UserTokenClient_init_def Client_init_def)

lemma sample_anon_client_kind: "kind sample_anon_client = AnonClient sample_driver"
  by (simp add: sample_anon_client_def Client_init_def)


lemma str_int_1: "str_int 1 = ''1''"
  by code_simp

lemma str_int_7: "str_int 7 = ''7''"
  by code_simp

lemma partial_headers_simps:
  "partial_headers ''X-Discogs-Ratelimit'' = Some ''60''"
  "partial_headers ''X-Discogs-Ratelimit-Used'' = Some ''1''"
  "partial_headers ''X-Discogs-Ratelimit-Remaining'' = None"
  by (simp_all add: partial_headers_def)

lemma py_int_samples:
  "py_int (Some ''60'') = Inr 60"
  "py_int (Some ''1'') = Inr 1"
  "py_int (Some ''59'') = Inr 59"
  by (simp_all add: py_int_def py_int_str_def py_strip_def py_isspace_def decimal_value_def
      py_isdigit_def digit_value_def)

section \<open>The transports and \<^verbatim>\<open>_get\<close>\<close>

lemma py_int_error: "py_int x = Inl e \<Longrightarrow> e = TypeError \<or> e = ValueError"
  by (auto simp add: py_int_def py_int_str_def split: option.splits list.splits if_splits)

lemma py_int_present: "py_int (Some v) = Inl e \<Longrightarrow> e = ValueError"
  by (auto simp add: py_int_def py_int_str_def split: option.splits list.splits if_splits)

lemma py_int_absent: "py_int None = Inl TypeError"
  by (simp add: py_int_def)

lemma py_int_cases:
  obtains (absent) "x = None" and "py_int x = Inl TypeError"
  | (malformed) v where "x = Some v" and "py_int x = Inl ValueError"
  | (integer) v n where "x = Some v" and "py_int x = Inr n"
proof (cases x)
  case None
  then show ?thesis using absent by (simp add: py_int_absent)
next
  case (Some v)
  show ?thesis
  proof (cases "py_int x")
    case (Inl e)
    with Some py_int_present [of v e] malformed show ?thesis by simp
  next
    case (Inr n)
    with Some integer show ?thesis by simp
  qed
qed

lemma UserTokenClient_request_ok:
  assumes "requests_request E (token_request tok method url data hdrs) = Inr resp"
    and "carries_rate_limits resp a b c"
  shows "UserTokenClient_request E tok method url data hdrs self =
           (Inr (content resp, status_code resp),
            self\<lparr>rate_limit := Some a, rate_limit_used := Some b, rate_limit_remaining := Some c\<rparr>,
            [Requested (token_request tok method url data hdrs)])"
  using assms
  by (simp add: UserTokenClient_request_def token_request_def carries_rate_limits_def Let_def)

lemma UserTokenClient_request_trace:
  "snd (snd (UserTokenClient_request E tok method url data hdrs self)) =
     [Requested (token_request tok method url data hdrs)]"
  by (simp add: UserTokenClient_request_def token_request_def Let_def split: sum.splits)

lemma request_token:
  "kind self = UserTokenClient tok \<Longrightarrow>
   request E method url data hdrs self = UserTokenClient_request E tok method url data hdrs self"
  by (simp add: request_def)

lemma Client_get_token:
  assumes "kind self = UserTokenClient tok"
    and "requests_request E (token_request tok ''GET'' url PNone PNone) = Inr resp"
    and "carries_rate_limits resp a b c"
  shows "Client_get E url is_api self =
           (if status_code resp \<noteq> 200
            then (Inr (PBool False),
                  self\<lparr>rate_limit := Some a, rate_limit_used := Some b, rate_limit_remaining := Some c\<rparr>,
                  [Requested (token_request tok ''GET'' url PNone PNone),
                   Logged (status_code resp) (content resp)])
            else ((if is_api then json_loads E (content resp) else Inr (PBytes (content resp))),
                  self\<lparr>rate_limit := Some a, rate_limit_used := Some b, rate_limit_remaining := Some c\<rparr>,
                  [Requested (token_request tok ''GET'' url PNone PNone)]))"
  using assms
  by (simp add: Client_get_def request_token UserTokenClient_request_ok)

section \<open>What an operation leaves behind\<close>

lemma request_frame:
  "\<forall>ev \<in> set (snd (snd (request E method url data hdrs self))). \<not> is_request ev \<Longrightarrow>
   fst (snd (request E method url data hdrs self)) = self"
proof (cases "kind self")
  case (UserTokenClient tok)
  then have "snd (snd (request E method url data hdrs self)) =
      [Requested (token_request tok method url data hdrs)]"
    by (simp add: request_token UserTokenClient_request_trace)
  moreover assume "\<forall>ev \<in> set (snd (snd (request E method url data hdrs self))). \<not> is_request ev"
  ultimately show ?thesis by simp
qed (simp_all add: request_def Client_request_def)

lemma Client_get_client:
  "fst (snd (Client_get E url is_api self)) = fst (snd (request E ''GET'' url PNone PNone self))"
  by (simp add: Client_get_def split: prod.splits sum.splits)

lemma Client_get_requests:
  "filter is_request (snd (snd (Client_get E url is_api self))) =
   filter is_request (snd (snd (request E ''GET'' url PNone PNone self)))"
  by (simp add: Client_get_def split: prod.splits sum.splits)

lemma get_list_effect:
  "snd (get_list E list_id self) = snd (Client_get E (base_url @ ''/lists/'' @ str_int list_id) True self)"
  by (simp add: get_list_def split: prod.splits sum.splits)

lemma get_listing_effect:
  "snd (get_listing E listing_id self) =
   snd (Client_get E (base_url @ ''/marketplace/listings/'' @ str_int listing_id) True self)"
  by (simp add: get_listing_def split: prod.splits sum.splits)

lemma get_release_effect:
  "snd (get_release E release_id self) =
   snd (Client_get E (base_url @ ''/releases/'' @ str_int release_id) True self)"
  by (simp add: get_release_def split: prod.splits sum.splits)

lemma get_release_stats_effect:
  "snd (get_release_stats E release_id self) =
   snd (Client_get E (base_url @ ''/marketplace/stats/'' @ str_int release_id) True self)"
  by (simp add: get_release_stats_def split: prod.splits sum.splits)

lemma Client_get_frame:
  assumes "\<forall>ev \<in> set (snd (snd (Client_get E url is_api self))). \<not> is_request ev"
  shows "fst (snd (Client_get E url is_api self)) = self"
proof -
  from assms have "filter is_request (snd (snd (Client_get E url is_api self))) = []"
    by (simp add: filter_empty_conv)
  then have "filter is_request (snd (snd (request E ''GET'' url PNone PNone self))) = []"
    by (simp add: Client_get_requests)
  then have "\<forall>ev \<in> set (snd (snd (request E ''GET'' url PNone PNone self))). \<not> is_request ev"
    by (simp add: filter_empty_conv)
  then show ?thesis
    by (simp add: Client_get_client request_frame)
qed

lemma get_marketplace_listings_frame:
  "rate_limits (fst (snd (get_marketplace_listings E release_id self))) = rate_limits self"
  by (simp add: get_marketplace_listings_def rate_limits_def split: client_kind.splits sum.splits)

lemma effect_frame:
  assumes "\<forall>ev \<in> set (snd (effect E opn self)). \<not> is_request ev"
  shows "rate_limits (fst (effect E opn self)) = rate_limits self"
proof (cases opn)
  case (GetMarketplaceListings release_id)
  then show ?thesis by (simp add: get_marketplace_listings_frame)
next
  case (Get url is_api)
  with assms show ?thesis by (simp add: Client_get_frame)
next
  case (Delete url is_api)
  with assms show ?thesis by (simp add: Client_delete_def request_frame)
next
  case (Patch url data is_api)
  with assms show ?thesis by (simp add: Client_patch_def request_frame)
next
  case (Post url data is_api)
  with assms show ?thesis by (simp add: Client_post_def request_frame)
next
  case (Put url data is_api)
  with assms show ?thesis by (simp add: Client_put_def request_frame)
next
  case (GetList list_id)
  with assms show ?thesis by (simp add: get_list_effect Client_get_frame)
next
  case (GetListing listing_id)
  with assms show ?thesis by (simp add: get_listing_effect Client_get_frame)
next
  case (GetRelease release_id)
  with assms show ?thesis by (simp add: get_release_effect Client_get_frame)
next
  case (GetReleaseStats release_id)
  with assms show ?thesis by (simp add: get_release_stats_effect Client_get_frame)
next
  case (GetWantlist username)
  with assms show ?thesis by (simp add: get_wantlist_def Client_get_frame)
qed

lemma run_frame:
  "\<forall>ev \<in> set (snd (run calls self)). \<not> is_request ev \<Longrightarrow>
   rate_limits (fst (run calls self)) = rate_limits self"
proof (induction calls arbitrary: self)
  case Nil
  then show ?case by simp
next
  case (Cons call rest)
  obtain E opn where call: "call = (E, opn)" by (cases call)
  obtain self' tr where eff: "effect E opn self = (self', tr)" by (cases "effect E opn self")
  obtain self'' tr' where rest: "run rest self' = (self'', tr')" by (cases "run rest self'")
  from Cons.prems call eff rest have quiet: "\<forall>ev \<in> set tr. \<not> is_request ev"
    and quiet': "\<forall>ev \<in> set tr'. \<not> is_request ev"
    by auto
  from quiet eff effect_frame [of E opn self] have "rate_limits self' = rate_limits self"
    by simp
  moreover from quiet' rest Cons.IH [of self'] have "rate_limits self'' = rate_limits self'"
    by simp
  ultimately show ?case using call eff rest by simp
qed

lemma request_events:
  "kind self = UserTokenClient tok \<Longrightarrow>
   snd (snd (request E method url data hdrs self)) = [Requested (token_request tok method url data hdrs)]"
  by (simp add: request_token UserTokenClient_request_trace)

lemma Client_get_events:
  assumes "kind self = UserTokenClient tok"
    and "ev \<in> set (snd (snd (Client_get E url is_api self)))"
  shows "ev = Requested (token_request tok ''GET'' url PNone PNone) \<or> \<not> is_request ev"
proof -
  obtain r self' tr where rq: "request E ''GET'' url PNone PNone self = (r, self', tr)"
    by (cases "request E ''GET'' url PNone PNone self")
  with request_events [OF assms(1), of E "''GET''" url PNone PNone]
  have tr: "tr = [Requested (token_request tok ''GET'' url PNone PNone)]" by simp
  from assms(2) rq tr show ?thesis
    by (auto simp add: Client_get_def split: sum.splits prod.splits if_splits)
qed

lemma effect_events:
  assumes "kind self = UserTokenClient tok"
    and "ev \<in> set (snd (effect E opn self))"
  shows "(\<exists>method url data hdrs. ev = Requested (token_request tok method url data hdrs))
         \<or> \<not> is_request ev"
proof (cases opn)
  case (Get url is_api)
  with assms Client_get_events [of self tok ev E url is_api] show ?thesis by auto
next
  case (Delete url is_api)
  with assms show ?thesis by (auto simp add: Client_delete_def request_events)
next
  case (Patch url data is_api)
  with assms show ?thesis by (auto simp add: Client_patch_def request_events)
next
  case (Post url data is_api)
  with assms show ?thesis by (auto simp add: Client_post_def request_events)
next
  case (Put url data is_api)
  with assms show ?thesis by (auto simp add: Client_put_def request_events)
next
  case (GetList list_id)
  with assms Client_get_events [of self tok ev E _ True] show ?thesis
    by (auto simp add: get_list_effect)
next
  case (GetListing listing_id)
  with assms Client_get_events [of self tok ev E _ True] show ?thesis
    by (auto simp add: get_listing_effect)
next
  case (GetRelease release_id)
  with assms Client_get_events [of self tok ev E _ True] show ?thesis
    by (auto simp add: get_release_effect)
next
  case (GetReleaseStats release_id)
  with assms Client_get_events [of self tok ev E _ True] show ?thesis
    by (auto simp add: get_release_stats_effect)
next
  case (GetWantlist username)
  with assms Client_get_events [of self tok ev E _ True] show ?thesis
    by (auto simp add: get_wantlist_def)
next
  case (GetMarketplaceListings release_id)
  with assms show ?thesis by (simp add: get_marketplace_listings_def)
qed

section \<open>The typed accessors on top of \<^verbatim>\<open>_get\<close>\<close>

lemma accessor_on_error:
  "fst (Client_get E (base_url @ ''/lists/'' @ str_int list_id) True self) = Inl e \<Longrightarrow>
     fst (get_list E list_id self) = Inl e"
  "fst (Client_get E (base_url @ ''/marketplace/listings/'' @ str_int listing_id) True self) = Inl e \<Longrightarrow>
     fst (get_listing E listing_id self) = Inl e"
  "fst (Client_get E (base_url @ ''/releases/'' @ str_int release_id) True self) = Inl e \<Longrightarrow>
     fst (get_release E release_id self) = Inl e"
  "fst (Client_get E (base_url @ ''/marketplace/stats/'' @ str_int release_id) True self) = Inl e \<Longrightarrow>
     fst (get_release_stats E release_id self) = Inl e"
  by (auto simp add: get_list_def get_listing_def get_release_def get_release_stats_def
      split: prod.splits sum.splits)

lemma accessor_on_value:
  "fst (Client_get E (base_url @ ''/lists/'' @ str_int list_id) True self) = Inr v \<Longrightarrow>
     fst (get_list E list_id self) =
       (case getitem v ''items'' of
          Inl e \<Rightarrow> Inl e
        | Inr raw_items \<Rightarrow>
            (case py_iter raw_items of
               Inl e \<Rightarrow> Inl e
             | Inr its \<Rightarrow>
                 (case construct_all E Release its of
                    Inl e \<Rightarrow> Inl e
                  | Inr releases \<Rightarrow>
                      (case setitem v ''items'' (PList releases) of
                         Inl e \<Rightarrow> Inl e
                       | Inr d \<Rightarrow> construct E UserList d))))"
  "fst (Client_get E (base_url @ ''/marketplace/listings/'' @ str_int listing_id) True self) = Inr v \<Longrightarrow>
     fst (get_listing E listing_id self) = construct E Listing v"
  "fst (Client_get E (base_url @ ''/releases/'' @ str_int release_id) True self) = Inr v \<Longrightarrow>
     fst (get_release E release_id self) = construct E Release v"
  "fst (Client_get E (base_url @ ''/marketplace/stats/'' @ str_int release_id) True self) = Inr v \<Longrightarrow>
     fst (get_release_stats E release_id self) =
       (if isinstance_dict v then construct E ReleaseStats v else Inr (PBool False))"
  by (auto simp add: get_list_def get_listing_def get_release_def get_release_stats_def
      split: prod.splits sum.splits)

lemma Client_get_token_200:
  assumes "kind self = UserTokenClient tok"
    and "requests_request E (token_request tok ''GET'' url PNone PNone) = Inr resp"
    and "carries_rate_limits resp a b c"
    and "status_code resp = 200"
  shows "fst (Client_get E url True self) = json_loads E (content resp)"
  using assms(4) by (simp add: Client_get_token [OF assms(1,2,3)])

lemma Client_get_token_not_200:
  assumes "kind self = UserTokenClient tok"
    and "requests_request E (token_request tok ''GET'' url PNone PNone) = Inr resp"
    and "carries_rate_limits resp a b c"
    and "status_code resp \<noteq> 200"
  shows "fst (Client_get E url is_api self) = Inr (PBool False)"
  using assms(4) by (simp add: Client_get_token [OF assms(1,2,3)])

lemma construct_all_accepted:
  "\<forall>kw \<in> set items. schema E k kw = None \<Longrightarrow>
   construct_all E k (map PDict items) = Inr (map (PEntity k) items)"
  by (induction items) (simp_all add: construct_def)

lemma sample_run:
  "run [(sample_env 200 ''[]'' sample_headers (Inr (PList [])), GetMarketplaceListings 1),
        (sample_env 200 ''[]'' sample_headers (Inr (PList [])), GetRelease 1)]
     sample_anon_client =
   ((Client_init ''agent'')\<lparr>user_agent := FakeUserAgent,
       kind := AnonClient (sample_driver\<lparr>page_source := ''<html></html>''\<rparr>)\<rparr>,
    [Navigated ''https://www.discogs.com/sell/release/1?ev=rb&sort=price%2Casc''])"
  by (simp add: get_marketplace_listings_def sample_anon_client_def Client_init_def
      sample_env_simps marketplace_url_def base_url_non_api_def str_int_1
      get_release_def Client_get_def request_def Client_request_def)

section \<open>Reads that do not succeed\<close>

text \<open>
  Claim C1. For every typed accessor (\<^verbatim>\<open>get_release\<close>, \<^verbatim>\<open>get_listing\<close>, \<^verbatim>\<open>get_list\<close>,
  \<^verbatim>\<open>get_release_stats\<close>, \<^verbatim>\<open>get_wantlist\<close>) and every response whose status code is not
  200, the accessor returns the sentinel \<^verbatim>\<open>False\<close> and never raises.

  What the code does: for a response whose status is not 200, \<^verbatim>\<open>_get\<close> returns
  \<^verbatim>\<open>False\<close>. \<^verbatim>\<open>get_release_stats\<close> tests \<^verbatim>\<open>isinstance(..., dict)\<close> and returns \<^verbatim>\<open>False\<close>, and
  \<^verbatim>\<open>get_wantlist\<close> returns what \<^verbatim>\<open>_get\<close> returned. The other three use the value without
  a test: \<^verbatim>\<open>Release(**False)\<close> and \<^verbatim>\<open>Listing(**False)\<close> raise \<^verbatim>\<open>TypeError\<close> (the argument
  after \<^verbatim>\<open>**\<close> must be a mapping), and so does \<^verbatim>\<open>False["items"]\<close> (a \<^verbatim>\<open>bool\<close> is not
  subscriptable). The statement holds for two accessors and fails for three.
\<close>

theorem non_200_accessors:
  "(kind self = UserTokenClient tok
      \<and> requests_request E (token_request tok ''GET'' url PNone PNone) = Inr resp
      \<and> carries_rate_limits resp a b c \<and> status_code resp \<noteq> 200
    \<longrightarrow> fst (Client_get E url is_api self) = Inr (PBool False))
   \<and> (fst (Client_get E (base_url @ ''/releases/'' @ str_int release_id) True self) = Inr (PBool False)
    \<longrightarrow> fst (get_release E release_id self) = Inl TypeError)
   \<and> (fst (Client_get E (base_url @ ''/marketplace/listings/'' @ str_int listing_id) True self) = Inr (PBool False)
    \<longrightarrow> fst (get_listing E listing_id self) = Inl TypeError)
   \<and> (fst (Client_get E (base_url @ ''/lists/'' @ str_int list_id) True self) = Inr (PBool False)
    \<longrightarrow> fst (get_list E list_id self) = Inl TypeError)
   \<and> (fst (Client_get E (base_url @ ''/marketplace/stats/'' @ str_int stats_id) True self) = Inr (PBool False)
    \<longrightarrow> fst (get_release_stats E stats_id self) = Inr (PBool False))
   \<and> (fst (Client_get E (base_url @ ''/users/'' @ username @ ''/wants'') True self) = Inr (PBool False)
    \<longrightarrow> fst (get_wantlist E username self) = Inr (PBool False))"
proof (intro conjI impI)
  assume "kind self = UserTokenClient tok
      \<and> requests_request E (token_request tok ''GET'' url PNone PNone) = Inr resp
      \<and> carries_rate_limits resp a b c \<and> status_code resp \<noteq> 200"
  then show "fst (Client_get E url is_api self) = Inr (PBool False)"
    using Client_get_token_not_200 [of self tok E url resp a b c is_api] by simp
next
  assume "fst (Client_get E (base_url @ ''/releases/'' @ str_int release_id) True self) = Inr (PBool False)"
  then show "fst (get_release E release_id self) = Inl TypeError"
    by (simp add: accessor_on_value construct_def)
next
  assume "fst (Client_get E (base_url @ ''/marketplace/listings/'' @ str_int listing_id) True self) = Inr (PBool False)"
  then show "fst (get_listing E listing_id self) = Inl TypeError"
    by (simp add: accessor_on_value construct_def)
next
  assume "fst (Client_get E (base_url @ ''/lists/'' @ str_int list_id) True self) = Inr (PBool False)"
  then show "fst (get_list E list_id self) = Inl TypeError"
    by (simp add: accessor_on_value getitem_def)
next
  assume "fst (Client_get E (base_url @ ''/marketplace/stats/'' @ str_int stats_id) True self) = Inr (PBool False)"
  then show "fst (get_release_stats E stats_id self) = Inr (PBool False)"
    by (simp add: accessor_on_value isinstance_dict_def)
next
  assume "fst (Client_get E (base_url @ ''/users/'' @ username @ ''/wants'') True self) = Inr (PBool False)"
  then show "fst (get_wantlist E username self) = Inr (PBool False)"
    by (simp add: get_wantlist_def)
qed

theorem non_200_accessors_witness:
  "fst (get_release (sample_env 404 ''gone'' sample_headers (Inl JSONDecodeError)) 1 sample_token_client)
     = Inl TypeError
   \<and> fst (get_listing (sample_env 404 ''gone'' sample_headers (Inl JSONDecodeError)) 1 sample_token_client)
     = Inl TypeError
   \<and> fst (get_list (sample_env 404 ''gone'' sample_headers (Inl JSONDecodeError)) 1 sample_token_client)
     = Inl TypeError
   \<and> fst (get_release_stats (sample_env 404 ''gone'' sample_headers (Inl JSONDecodeError)) 1
        sample_token_client) = Inr (PBool False)
   \<and> fst (get_wantlist (sample_env 404 ''gone'' sample_headers (Inl JSONDecodeError)) ''me''
        sample_token_client) = Inr (PBool False)"
proof -
  let ?E = "sample_env 404 ''gone'' sample_headers (Inl JSONDecodeError)"
  let ?resp = "sample_response 404 ''gone'' sample_headers"
  have status: "status_code ?resp \<noteq> 200"
    by (simp add: sample_response_simps)
  have sentinel: "fst (Client_get ?E url True sample_token_client) = Inr (PBool False)" for url
    using non_200_accessors [of sample_token_client "''secret''" ?E url ?resp 60 1 59 True]
      sample_token_client_kind sample_env_simps(1) [of 404 "''gone''" sample_headers "Inl JSONDecodeError"]
      sample_headers_carry [of 404 "''gone''"] status
    by blast
  from non_200_accessors [of sample_token_client "''secret''" ?E "[]" ?resp 60 1 59 True 1 1 1 1 "''me''"]
    sentinel
  show ?thesis by blast
qed

text \<open>
  Claim C9. For every API read that returns status 200 with a body that is not valid
  JSON, \<^verbatim>\<open>_get\<close> (and hence every typed accessor built on it) raises the decoding error,
  which propagates to the caller; the case is not turned into the sentinel.

  Whatever exception \<^verbatim>\<open>json.loads\<close> raises for the body is the result of \<^verbatim>\<open>_get\<close>, and
  every typed accessor returns the exception of its \<^verbatim>\<open>_get\<close> unchanged.
\<close>

theorem malformed_json_propagates:
  "(kind self = UserTokenClient tok
      \<and> requests_request E (token_request tok ''GET'' url PNone PNone) = Inr resp
      \<and> carries_rate_limits resp a b c \<and> status_code resp = 200
      \<and> json_loads E (content resp) = Inl e
    \<longrightarrow> fst (Client_get E url True self) = Inl e)
   \<and> (fst (Client_get E (base_url @ ''/lists/'' @ str_int list_id) True self) = Inl e
    \<longrightarrow> fst (get_list E list_id self) = Inl e)
   \<and> (fst (Client_get E (base_url @ ''/marketplace/listings/'' @ str_int listing_id) True self) = Inl e
    \<longrightarrow> fst (get_listing E listing_id self) = Inl e)
   \<and> (fst (Client_get E (base_url @ ''/releases/'' @ str_int release_id) True self) = Inl e
    \<longrightarrow> fst (get_release E release_id self) = Inl e)
   \<and> (fst (Client_get E (base_url @ ''/marketplace/stats/'' @ str_int stats_id) True self) = Inl e
    \<longrightarrow> fst (get_release_stats E stats_id self) = Inl e)
   \<and> (fst (Client_get E (base_url @ ''/users/'' @ username @ ''/wants'') True self) = Inl e
    \<longrightarrow> fst (get_wantlist E username self) = Inl e)"
proof (intro conjI impI)
  assume "kind self = UserTokenClient tok
      \<and> requests_request E (token_request tok ''GET'' url PNone PNone) = Inr resp
      \<and> carries_rate_limits resp a b c \<and> status_code resp = 200
      \<and> json_loads E (content resp) = Inl e"
  then show "fst (Client_get E url True self) = Inl e"
    using Client_get_token_200 [of self tok E url resp a b c] by simp
qed (simp_all add: accessor_on_error get_wantlist_def)

theorem malformed_json_propagates_witness:
  "fst (Client_get (sample_env 200 ''nul'' sample_headers (Inl JSONDecodeError))
        ''https://api.discogs.com/releases/1'' True sample_token_client) = Inl JSONDecodeError
   \<and> fst (get_list (sample_env 200 ''nul'' sample_headers (Inl JSONDecodeError)) 1
        sample_token_client) = Inl JSONDecodeError
   \<and> fst (get_listing (sample_env 200 ''nul'' sample_headers (Inl JSONDecodeError)) 1
        sample_token_client) = Inl JSONDecodeError
   \<and> fst (get_release (sample_env 200 ''nul'' sample_headers (Inl JSONDecodeError)) 1
        sample_token_client) = Inl JSONDecodeError
   \<and> fst (get_release_stats (sample_env 200 ''nul'' sample_headers (Inl JSONDecodeError)) 1
        sample_token_client) = Inl JSONDecodeError
   \<and> fst (get_wantlist (sample_env 200 ''nul'' sample_headers (Inl JSONDecodeError)) ''me''
        sample_token_client) = Inl JSONDecodeError"
proof -
  let ?E = "sample_env 200 ''nul'' sample_headers (Inl JSONDecodeError)"
  let ?resp = "sample_response 200 ''nul'' sample_headers"
  have status: "status_code ?resp = 200"
    by (simp add: sample_response_simps)
  have undecodable: "json_loads ?E (content ?resp) = Inl JSONDecodeError"
    by (simp add: sample_env_simps)
  have raised: "fst (Client_get ?E url True sample_token_client) = Inl JSONDecodeError" for url
    using malformed_json_propagates
        [of sample_token_client "''secret''" ?E url ?resp 60 1 59 JSONDecodeError]
      sample_token_client_kind sample_env_simps(1) [of 200 "''nul''" sample_headers "Inl JSONDecodeError"]
      sample_headers_carry [of 200 "''nul''"] status undecodable
    by blast
  from malformed_json_propagates
      [of sample_token_client "''secret''" ?E "[]" ?resp 60 1 59 JSONDecodeError 1 1 1 1 "''me''"]
    raised
  show ?thesis by blast
qed

section \<open>The token transport\<close>

text \<open>
  Claim C8. Every request issued by the token transport, for every HTTP method and
  URL, carries the client's user token as a query parameter named \<^verbatim>\<open>token\<close>.

  \<^verbatim>\<open>_request\<close> of a \<^verbatim>\<open>UserTokenClient\<close> issues exactly one request, the one with the
  method, URL, body and headers it was called with and with the single query
  parameter \<^verbatim>\<open>token\<close> bound to the client's token; and every request that any
  operation of such a client issues has exactly these query parameters.
\<close>

theorem token_on_every_request:
  assumes "kind self = UserTokenClient tok"
  shows "snd (snd (request E method url data hdrs self)) =
           [Requested \<lparr>req_method = method, req_url = url, req_params = [(''token'', tok)],
                       req_data = data, req_headers = hdrs\<rparr>]
         \<and> (\<forall>ev \<in> set (snd (effect E opn self)). \<forall>rq.
               ev = Requested rq \<longrightarrow> req_params rq = [(''token'', tok)])"
proof
  from assms show "snd (snd (request E method url data hdrs self)) =
           [Requested \<lparr>req_method = method, req_url = url, req_params = [(''token'', tok)],
                       req_data = data, req_headers = hdrs\<rparr>]"
    by (simp add: request_events token_request_def)
next
  show "\<forall>ev \<in> set (snd (effect E opn self)). \<forall>rq.
               ev = Requested rq \<longrightarrow> req_params rq = [(''token'', tok)]"
  proof (intro ballI allI impI)
    fix ev rq
    assume "ev \<in> set (snd (effect E opn self))" and "ev = Requested rq"
    with effect_events [OF assms, of ev E opn] show "req_params rq = [(''token'', tok)]"
      by (auto simp add: token_request_def)
  qed
qed

theorem token_on_every_request_witness:
  "snd (snd (request (sample_env 200 ''[]'' sample_headers (Inr (PList []))) ''DELETE''
       ''https://api.discogs.com/lists/7'' PNone PNone sample_token_client)) =
     [Requested \<lparr>req_method = ''DELETE'', req_url = ''https://api.discogs.com/lists/7'',
                 req_params = [(''token'', ''secret'')], req_data = PNone, req_headers = PNone\<rparr>]
   \<and> snd (effect (sample_env 404 ''gone'' sample_headers (Inl JSONDecodeError)) (GetList 7)
        sample_token_client) =
     [Requested \<lparr>req_method = ''GET'', req_url = ''https://api.discogs.com/lists/7'',
                 req_params = [(''token'', ''secret'')], req_data = PNone, req_headers = PNone\<rparr>,
      Logged 404 ''gone'']"
proof
  show "snd (snd (request (sample_env 200 ''[]'' sample_headers (Inr (PList []))) ''DELETE''
       ''https://api.discogs.com/lists/7'' PNone PNone sample_token_client)) =
     [Requested \<lparr>req_method = ''DELETE'', req_url = ''https://api.discogs.com/lists/7'',
                 req_params = [(''token'', ''secret'')], req_data = PNone, req_headers = PNone\<rparr>]"
    using token_on_every_request [OF sample_token_client_kind,
      of "sample_env 200 ''[]'' sample_headers (Inr (PList []))" "''DELETE''"
         "''https://api.discogs.com/lists/7''" PNone PNone "GetList 7"]
    by simp
next
  show "snd (effect (sample_env 404 ''gone'' sample_headers (Inl JSONDecodeError)) (GetList 7)
        sample_token_client) =
     [Requested \<lparr>req_method = ''GET'', req_url = ''https://api.discogs.com/lists/7'',
                 req_params = [(''token'', ''secret'')], req_data = PNone, req_headers = PNone\<rparr>,
      Logged 404 ''gone'']"
    by (simp add: get_list_effect
        Client_get_token [OF sample_token_client_kind sample_env_simps(1) sample_headers_carry]
        sample_response_simps base_url_def str_int_7 token_request_def)
qed

text \<open>
  Claim C2. If any of the three rate-limit response headers is absent from the
  response, the request of the token transport fails with a propagated error.

  The result of \<^verbatim>\<open>_request\<close> is then an exception, never a pair of content and status:
  \<^verbatim>\<open>int(None)\<close> raises \<^verbatim>\<open>TypeError\<close>, unless a header read before the absent one is
  present and malformed, in which case \<^verbatim>\<open>int\<close> has already raised \<^verbatim>\<open>ValueError\<close>. When
  every header that is present reads as an integer, the exception is \<^verbatim>\<open>TypeError\<close>.
\<close>

theorem missing_rate_limit_header_raises:
  assumes "kind self = UserTokenClient tok"
    and "requests_request E (token_request tok method url data hdrs) = Inr resp"
    and "headers resp ''X-Discogs-Ratelimit'' = None
         \<or> headers resp ''X-Discogs-Ratelimit-Used'' = None
         \<or> headers resp ''X-Discogs-Ratelimit-Remaining'' = None"
  shows "(fst (request E method url data hdrs self) = Inl TypeError
          \<or> fst (request E method url data hdrs self) = Inl ValueError)
         \<and> ((\<forall>name v. headers resp name = Some v \<longrightarrow> py_int (Some v) \<noteq> Inl ValueError)
              \<longrightarrow> fst (request E method url data hdrs self) = Inl TypeError)"
proof -
  let ?h1 = "headers resp ''X-Discogs-Ratelimit''"
  let ?h2 = "headers resp ''X-Discogs-Ratelimit-Used''"
  let ?h3 = "headers resp ''X-Discogs-Ratelimit-Remaining''"
  let ?r = "fst (request E method url data hdrs self)"
  have rq: "requests_request E
      \<lparr>req_method = method, req_url = url, req_params = [(''token'', tok)],
       req_data = data, req_headers = hdrs\<rparr> = Inr resp"
    using assms(2) by (simp add: token_request_def)
  have unfold: "?r =
      (case py_int ?h1 of
         Inl e \<Rightarrow> Inl e
       | Inr a \<Rightarrow>
           (case py_int ?h2 of
              Inl e \<Rightarrow> Inl e
            | Inr b \<Rightarrow> (case py_int ?h3 of Inl e \<Rightarrow> Inl e
                        | Inr c \<Rightarrow> Inr (content resp, status_code resp))))"
    using assms(1)
    by (simp add: request_token UserTokenClient_request_def Let_def rq split: sum.splits)
  show ?thesis
  proof (cases ?h1 rule: py_int_cases)
    case absent
    then show ?thesis by (simp add: unfold)
  next
    case (malformed v)
    then show ?thesis by (auto simp add: unfold)
  next
    case first: (integer v1 a)
    show ?thesis
    proof (cases ?h2 rule: py_int_cases)
      case absent
      with first show ?thesis by (simp add: unfold)
    next
      case (malformed v)
      with first show ?thesis by (auto simp add: unfold)
    next
      case second: (integer v2 b)
      show ?thesis
      proof (cases ?h3 rule: py_int_cases)
        case absent
        with first second show ?thesis by (simp add: unfold)
      next
        case (malformed v)
        with first second show ?thesis by (auto simp add: unfold)
      next
        case (integer v3 c)
        with first second assms(3) show ?thesis by simp
      qed
    qed
  qed
qed

theorem missing_rate_limit_header_raises_witness:
  "fst (request (sample_env 200 ''[]'' partial_headers (Inr (PList []))) ''GET''
       ''https://api.discogs.com/releases/1'' PNone PNone sample_token_client) = Inl TypeError"
proof -
  have present: "\<forall>name v. headers (sample_response 200 ''[]'' partial_headers) name = Some v
      \<longrightarrow> py_int (Some v) \<noteq> Inl ValueError"
    by (auto simp add: sample_response_simps partial_headers_def py_int_samples
        split: if_splits)
  have absent: "headers (sample_response 200 ''[]'' partial_headers) ''X-Discogs-Ratelimit'' = None
         \<or> headers (sample_response 200 ''[]'' partial_headers) ''X-Discogs-Ratelimit-Used'' = None
         \<or> headers (sample_response 200 ''[]'' partial_headers) ''X-Discogs-Ratelimit-Remaining'' = None"
    by (simp add: sample_response_simps partial_headers_simps)
  from missing_rate_limit_header_raises [OF sample_token_client_kind sample_env_simps(1) absent]
    present
  show ?thesis by blast
qed

section \<open>The rate-limit tracker\<close>

text \<open>
  Claim C3. After one authenticated call whose response carries the three rate-limit
  headers, the three tracker fields equal exactly the three integers in those
  headers, and they keep their values until the next authenticated call: no other
  operation mutates them.

  The second half is a frame property of every client and every sequence of
  operations: if the sequence issues no request, the three fields after it are the
  three fields before it.
\<close>

theorem rate_limit_tracker_update_and_frame:
  "(kind self = UserTokenClient tok
      \<and> requests_request E (token_request tok method url data hdrs) = Inr resp
      \<and> carries_rate_limits resp a b c
    \<longrightarrow> rate_limits (fst (snd (request E method url data hdrs self))) = (Some a, Some b, Some c))
   \<and> ((\<forall>ev \<in> set (snd (run calls client0)). \<not> is_request ev)
    \<longrightarrow> rate_limits (fst (run calls client0)) = rate_limits client0)"
proof (intro conjI impI)
  assume "kind self = UserTokenClient tok
      \<and> requests_request E (token_request tok method url data hdrs) = Inr resp
      \<and> carries_rate_limits resp a b c"
  then have token: "kind self = UserTokenClient tok"
    and reply: "requests_request E (token_request tok method url data hdrs) = Inr resp"
    and carried: "carries_rate_limits resp a b c"
    by simp_all
  show "rate_limits (fst (snd (request E method url data hdrs self))) =
      (Some a, Some b, Some c)"
    by (simp add: request_token [OF token] UserTokenClient_request_ok [OF reply carried]
        rate_limits_def)
next
  assume "\<forall>ev \<in> set (snd (run calls client0)). \<not> is_request ev"
  then show "rate_limits (fst (run calls client0)) = rate_limits client0"
    by (rule run_frame)
qed

theorem rate_limit_tracker_update_and_frame_witness:
  "rate_limits (fst (snd (request (sample_env 404 ''gone'' sample_headers (Inl JSONDecodeError)) ''GET''
       ''https://api.discogs.com/releases/1'' PNone PNone sample_token_client))) =
     (Some 60, Some 1, Some 59)
   \<and> rate_limits (fst (run
        [(sample_env 200 ''[]'' sample_headers (Inr (PList [])), GetMarketplaceListings 1),
         (sample_env 200 ''[]'' sample_headers (Inr (PList [])), GetRelease 1)]
        sample_anon_client)) = rate_limits sample_anon_client"
proof -
  have quiet: "\<forall>ev \<in> set (snd (run
        [(sample_env 200 ''[]'' sample_headers (Inr (PList [])), GetMarketplaceListings 1),
         (sample_env 200 ''[]'' sample_headers (Inr (PList [])), GetRelease 1)]
        sample_anon_client)). \<not> is_request ev"
    unfolding sample_run by simp
  from rate_limit_tracker_update_and_frame
    [of sample_token_client "''secret''" "sample_env 404 ''gone'' sample_headers (Inl JSONDecodeError)"
        "''GET''" "''https://api.discogs.com/releases/1''" PNone PNone
        "sample_response 404 ''gone'' sample_headers" 60 1 59
        "[(sample_env 200 ''[]'' sample_headers (Inr (PList [])), GetMarketplaceListings 1),
          (sample_env 200 ''[]'' sample_headers (Inr (PList [])), GetRelease 1)]"
        sample_anon_client]
    sample_token_client_kind sample_env_simps(1) sample_headers_carry quiet
  show ?thesis by blast
qed

text \<open>
  Claim C10, as stated: on a freshly constructed client the three tracker fields are
  \<^verbatim>\<open>None\<close>, and the token transport overwrites all three fields on every request it
  performs, whatever the status of the response.

  The second half fails for a response that lacks a header. The three assignments run
  one after the other, and \<^verbatim>\<open>int(None)\<close> raises at the first absent header: the fields
  assigned before it are overwritten, the others keep their earlier values. Below, a
  client whose tracker reads 60, 0, 60 receives a response with limit 60 and used 1
  and no remaining count, and is left with 60, 1, 60.
\<close>

theorem partial_overwrite_counterexample:
  "rate_limits (fst (snd (request (sample_env 200 ''[]'' partial_headers (Inr (PList []))) ''GET''
       ''https://api.discogs.com/releases/1'' PNone PNone
       (sample_token_client\<lparr>rate_limit := Some 60, rate_limit_used := Some 0,
                            rate_limit_remaining := Some 60\<rparr>)))) =
     (Some 60, Some 1, Some 60)
   \<and> fst (request (sample_env 200 ''[]'' partial_headers (Inr (PList []))) ''GET''
       ''https://api.discogs.com/releases/1'' PNone PNone
       (sample_token_client\<lparr>rate_limit := Some 60, rate_limit_used := Some 0,
                            rate_limit_remaining := Some 60\<rparr>)) = Inl TypeError"
  by (simp add: request_def UserTokenClient_request_def sample_token_client_def
      UserTokenClient_init_def Client_init_def sample_env_simps sample_response_simps
      partial_headers_simps py_int_samples py_int_absent rate_limits_def)

text \<open>
  Claim C10, amended: on a freshly constructed client of each of the three classes
  the three tracker fields are \<^verbatim>\<open>None\<close>; and on every request of the token transport
  whose response carries the three rate-limit headers as integers, all three fields
  are overwritten with them, whatever the status code. The status is only returned,
  and \<^verbatim>\<open>_get\<close> looks at it after the update: a read that ends in the sentinel \<^verbatim>\<open>False\<close>
  has updated the tracker all the same.
\<close>

theorem fresh_tracker_and_update_on_every_status:
  "rate_limits (Client_init ua) = (None, None, None)
   \<and> rate_limits (UserTokenClient_init ua token) = (None, None, None)
   \<and> (\<forall>fresh. AnonClient_init E ua = Inr fresh \<longrightarrow> rate_limits fresh = (None, None, None))
   \<and> (kind self = UserTokenClient tok
        \<and> requests_request E (token_request tok method url data hdrs) = Inr resp
        \<and> carries_rate_limits resp a b c
      \<longrightarrow> fst (request E method url data hdrs self) = Inr (content resp, status_code resp)
          \<and> rate_limits (fst (snd (request E method url data hdrs self))) =
            (Some a, Some b, Some c))
   \<and> (kind self = UserTokenClient tok
        \<and> requests_request E (token_request tok ''GET'' url PNone PNone) = Inr resp
        \<and> carries_rate_limits resp a b c \<and> status_code resp \<noteq> 200
      \<longrightarrow> fst (Client_get E url is_api self) = Inr (PBool False)
          \<and> rate_limits (fst (snd (Client_get E url is_api self))) = (Some a, Some b, Some c))"
proof (intro conjI allI impI)
  show "rate_limits (Client_init ua) = (None, None, None)"
    by (simp add: Client_init_def rate_limits_def)
  show "rate_limits (UserTokenClient_init ua token) = (None, None, None)"
    by (simp add: UserTokenClient_init_def Client_init_def rate_limits_def)
next
  fix fresh
  assume "AnonClient_init E ua = Inr fresh"
  then show "rate_limits fresh = (None, None, None)"
    by (auto simp add: AnonClient_init_def Client_init_def rate_limits_def split: sum.splits)
next
  assume "kind self = UserTokenClient tok
        \<and> requests_request E (token_request tok method url data hdrs) = Inr resp
        \<and> carries_rate_limits resp a b c"
  then have token: "kind self = UserTokenClient tok"
    and reply: "requests_request E (token_request tok method url data hdrs) = Inr resp"
    and carried: "carries_rate_limits resp a b c"
    by simp_all
  show "fst (request E method url data hdrs self) = Inr (content resp, status_code resp)"
    by (simp add: request_token [OF token] UserTokenClient_request_ok [OF reply carried])
  show "rate_limits (fst (snd (request E method url data hdrs self))) = (Some a, Some b, Some c)"
    by (simp add: request_token [OF token] UserTokenClient_request_ok [OF reply carried]
        rate_limits_def)
next
  assume "kind self = UserTokenClient tok
        \<and> requests_request E (token_request tok ''GET'' url PNone PNone) = Inr resp
        \<and> carries_rate_limits resp a b c \<and> status_code resp \<noteq> 200"
  then have token: "kind self = UserTokenClient tok"
    and reply: "requests_request E (token_request tok ''GET'' url PNone PNone) = Inr resp"
    and carried: "carries_rate_limits resp a b c"
    and status: "status_code resp \<noteq> 200"
    by simp_all
  show "fst (Client_get E url is_api self) = Inr (PBool False)"
    using status by (simp add: Client_get_token [OF token reply carried])
  show "rate_limits (fst (snd (Client_get E url is_api self))) = (Some a, Some b, Some c)"
    using status by (simp add: Client_get_token [OF token reply carried] rate_limits_def)
qed

theorem fresh_tracker_and_update_on_every_status_witness:
  "rate_limits (Client_init ''agent'') = (None, None, None)
   \<and> rate_limits (UserTokenClient_init ''agent'' ''secret'') = (None, None, None)
   \<and> AnonClient_init (sample_env 404 ''gone'' sample_headers (Inl JSONDecodeError)) ''agent'' =
       Inr ((Client_init ''agent'')
         \<lparr>user_agent := FakeUserAgent,
          kind := AnonClient
            \<lparr>service_path = ''/usr/bin/chromedriver'', service_log_path = ''/dev/null'',
             arguments = [''--disable-gpu'', ''--disable-dev-shm-usage'', ''--disable-infobars'',
               ''--headless'', ''--incognito'', ''--user-agent=Mozilla/5.0'', ''--no-sandbox''],
             page_source = []\<rparr>\<rparr>)
   \<and> rate_limits ((Client_init ''agent'')
         \<lparr>user_agent := FakeUserAgent,
          kind := AnonClient
            \<lparr>service_path = ''/usr/bin/chromedriver'', service_log_path = ''/dev/null'',
             arguments = [''--disable-gpu'', ''--disable-dev-shm-usage'', ''--disable-infobars'',
               ''--headless'', ''--incognito'', ''--user-agent=Mozilla/5.0'', ''--no-sandbox''],
             page_source = []\<rparr>\<rparr>) = (None, None, None)
   \<and> fst (request (sample_env 404 ''gone'' sample_headers (Inl JSONDecodeError)) ''GET''
         ''https://api.discogs.com/releases/1'' PNone PNone sample_token_client) =
       Inr (''gone'', 404)
   \<and> rate_limits (fst (snd (request (sample_env 404 ''gone'' sample_headers (Inl JSONDecodeError)) ''GET''
         ''https://api.discogs.com/releases/1'' PNone PNone sample_token_client))) =
       (Some 60, Some 1, Some 59)
   \<and> fst (Client_get (sample_env 404 ''gone'' sample_headers (Inl JSONDecodeError))
         ''https://api.discogs.com/releases/1'' True sample_token_client) = Inr (PBool False)
   \<and> rate_limits (fst (snd (Client_get (sample_env 404 ''gone'' sample_headers (Inl JSONDecodeError))
         ''https://api.discogs.com/releases/1'' True sample_token_client))) =
       (Some 60, Some 1, Some 59)"
proof -
  let ?E = "sample_env 404 ''gone'' sample_headers (Inl JSONDecodeError)"
  let ?resp = "sample_response 404 ''gone'' sample_headers"
  have built: "AnonClient_init ?E ''agent'' =
       Inr ((Client_init ''agent'')
         \<lparr>user_agent := FakeUserAgent,
          kind := AnonClient
            \<lparr>service_path = ''/usr/bin/chromedriver'', service_log_path = ''/dev/null'',
             arguments = [''--disable-gpu'', ''--disable-dev-shm-usage'', ''--disable-infobars'',
               ''--headless'', ''--incognito'', ''--user-agent=Mozilla/5.0'', ''--no-sandbox''],
             page_source = []\<rparr>\<rparr>)"
    by (simp add: AnonClient_init_def get_driver_path_def sample_env_def log_path_def
        options_arguments_def)
  have status: "status_code ?resp \<noteq> 200"
    by (simp add: sample_response_simps)
  from fresh_tracker_and_update_on_every_status
    [of "''agent''" "''secret''" ?E sample_token_client "''secret''" "''GET''"
        "''https://api.discogs.com/releases/1''" PNone PNone ?resp 60 1 59 True]
    built sample_token_client_kind
    sample_env_simps(1) [of 404 "''gone''" sample_headers "Inl JSONDecodeError"]
    sample_headers_carry [of 404 "''gone''"] status
  show ?thesis by (simp add: sample_response_simps)
qed

section \<open>Entities from successful reads\<close>

text \<open>
  Claim C4. \<^verbatim>\<open>get_release_stats\<close> returns the sentinel \<^verbatim>\<open>False\<close> whenever the decoded
  response body is not a mapping (an empty list, for example), and returns a
  populated \<^verbatim>\<open>ReleaseStats\<close> entity whenever the decoded body is a well-formed mapping.

  A mapping is well-formed when the class accepts it; the entity is populated when
  each of its fields is the value of the mapping under that name.
\<close>

theorem release_stats_mapping_or_false:
  assumes "kind self = UserTokenClient tok"
    and "requests_request E
           (token_request tok ''GET'' (base_url @ ''/marketplace/stats/'' @ str_int release_id)
              PNone PNone) = Inr resp"
    and "carries_rate_limits resp a b c"
    and "status_code resp = 200"
    and "json_loads E (content resp) = Inr body"
  shows "((\<forall>kw. body \<noteq> PDict kw)
            \<longrightarrow> fst (get_release_stats E release_id self) = Inr (PBool False))
         \<and> (\<forall>kw. body = PDict kw \<and> schema E ReleaseStats kw = None
            \<longrightarrow> fst (get_release_stats E release_id self) = Inr (PEntity ReleaseStats kw)
                \<and> (\<forall>name. field (PEntity ReleaseStats kw) name = map_of kw name))"
proof -
  have got: "fst (Client_get E (base_url @ ''/marketplace/stats/'' @ str_int release_id) True self)
      = Inr body"
    using Client_get_token_200 [OF assms(1,2,3,4)] assms(5) by simp
  show ?thesis
    by (cases body) (simp_all add: accessor_on_value(4) [OF got] isinstance_dict_def
        construct_def field_def)
qed

theorem release_stats_mapping_or_false_witness:
  "fst (get_release_stats (sample_env 200 ''[]'' sample_headers (Inr (PList []))) 1
        sample_token_client) = Inr (PBool False)
   \<and> fst (get_release_stats
        (sample_env 200 ''{\"num_for_sale\": 3}'' sample_headers (Inr (PDict [(''num_for_sale'', PInt 3)]))) 1
        sample_token_client) = Inr (PEntity ReleaseStats [(''num_for_sale'', PInt 3)])
   \<and> field (PEntity ReleaseStats [(''num_for_sale'', PInt 3)]) ''num_for_sale'' = Some (PInt 3)"
proof -
  have ok: "status_code (sample_response 200 body sample_headers) = 200" for body
    by (simp add: sample_response_simps)
  have empty_list: "json_loads (sample_env 200 ''[]'' sample_headers (Inr (PList [])))
      (content (sample_response 200 ''[]'' sample_headers)) = Inr (PList [])"
    by (simp add: sample_env_simps)
  have mapping: "json_loads
      (sample_env 200 ''{\"num_for_sale\": 3}'' sample_headers (Inr (PDict [(''num_for_sale'', PInt 3)])))
      (content (sample_response 200 ''{\"num_for_sale\": 3}'' sample_headers))
      = Inr (PDict [(''num_for_sale'', PInt 3)])"
    by (simp add: sample_env_simps)
  from release_stats_mapping_or_false
    [OF sample_token_client_kind sample_env_simps(1) sample_headers_carry ok empty_list]
  have "fst (get_release_stats (sample_env 200 ''[]'' sample_headers (Inr (PList []))) 1
        sample_token_client) = Inr (PBool False)"
    by simp
  moreover
  from release_stats_mapping_or_false
    [OF sample_token_client_kind sample_env_simps(1) sample_headers_carry ok mapping]
  have "fst (get_release_stats
        (sample_env 200 ''{\"num_for_sale\": 3}'' sample_headers (Inr (PDict [(''num_for_sale'', PInt 3)]))) 1
        sample_token_client) = Inr (PEntity ReleaseStats [(''num_for_sale'', PInt 3)])
     \<and> field (PEntity ReleaseStats [(''num_for_sale'', PInt 3)]) ''num_for_sale'' = Some (PInt 3)"
    by (simp add: sample_env_simps)
  ultimately show ?thesis by simp
qed

text \<open>
  Claim C5. For every successfully decoded list object whose \<^verbatim>\<open>items\<close> array holds N
  item mappings, \<^verbatim>\<open>get_list\<close> returns a \<^verbatim>\<open>UserList\<close> whose \<^verbatim>\<open>items\<close> sequence has length
  N, and whose element at each position is the \<^verbatim>\<open>Release\<close> constructed from the input
  mapping at the same position.

  The object is successfully decoded when \<^verbatim>\<open>Release\<close> accepts every item and
  \<^verbatim>\<open>UserList\<close> accepts the object with its items replaced.
\<close>

theorem get_list_preserves_item_order:
  assumes "kind self = UserTokenClient tok"
    and "requests_request E
           (token_request tok ''GET'' (base_url @ ''/lists/'' @ str_int list_id) PNone PNone)
         = Inr resp"
    and "carries_rate_limits resp a b c"
    and "status_code resp = 200"
    and "json_loads E (content resp) = Inr (PDict d)"
    and "map_of d ''items'' = Some (PList (map PDict items))"
    and "\<forall>kw \<in> set items. schema E Release kw = None"
    and "schema E UserList (AList.update ''items'' (PList (map (PEntity Release) items)) d) = None"
    and "releases = map (PEntity Release) items"
  shows "fst (get_list E list_id self) =
           Inr (PEntity UserList (AList.update ''items'' (PList releases) d))
         \<and> field (PEntity UserList (AList.update ''items'' (PList releases) d)) ''items'' =
           Some (PList releases)
         \<and> length releases = length items
         \<and> (\<forall>i < length items. releases ! i = PEntity Release (items ! i))"
proof -
  have got: "fst (Client_get E (base_url @ ''/lists/'' @ str_int list_id) True self)
      = Inr (PDict d)"
    using Client_get_token_200 [OF assms(1,2,3,4)] assms(5) by simp
  have "fst (get_list E list_id self) =
      Inr (PEntity UserList (AList.update ''items'' (PList releases) d))"
    using assms(6,8,9)
    by (simp add: accessor_on_value(1) [OF got] getitem_def py_iter_def setitem_def
        construct_all_accepted [OF assms(7)] construct_def)
  moreover have "field (PEntity UserList (AList.update ''items'' (PList releases) d)) ''items''
      = Some (PList releases)"
    by (simp add: field_def update_conv')
  ultimately show ?thesis using assms(9) by simp
qed

theorem get_list_preserves_item_order_witness:
  "fst (get_list
       (sample_env 200 ''{\"name\": \"wants\", \"items\": [{\"id\": 5}, {\"id\": 3}]}'' sample_headers
          (Inr (PDict [(''name'', PStr ''wants''),
                       (''items'', PList [PDict [(''id'', PInt 5)], PDict [(''id'', PInt 3)]])])))
       7 sample_token_client) =
     Inr (PEntity UserList
       [(''name'', PStr ''wants''),
        (''items'', PList [PEntity Release [(''id'', PInt 5)],
                           PEntity Release [(''id'', PInt 3)]])])"
proof -
  let ?d = "[(''name'', PStr ''wants''),
             (''items'', PList [PDict [(''id'', PInt 5)], PDict [(''id'', PInt 3)]])]"
  let ?items = "[[(''id'', PInt 5)], [(''id'', PInt 3 :: pyval)]]"
  let ?E = "sample_env 200 ''{\"name\": \"wants\", \"items\": [{\"id\": 5}, {\"id\": 3}]}'' sample_headers (Inr (PDict ?d))"
  have ok: "status_code (sample_response 200 ''{\"name\": \"wants\", \"items\": [{\"id\": 5}, {\"id\": 3}]}'' sample_headers) = 200"
    by (simp add: sample_response_simps)
  have decoded: "json_loads ?E (content (sample_response 200 ''{\"name\": \"wants\", \"items\": [{\"id\": 5}, {\"id\": 3}]}'' sample_headers)) = Inr (PDict ?d)"
    by (simp add: sample_env_simps)
  have items: "map_of ?d ''items'' = Some (PList (map PDict ?items))"
    by simp
  have accepted: "\<forall>kw \<in> set ?items. schema ?E Release kw = None"
    by (simp add: sample_env_simps)
  have accepted_list:
    "schema ?E UserList (AList.update ''items'' (PList (map (PEntity Release) ?items)) ?d) = None"
    by (simp add: sample_env_simps)
  from get_list_preserves_item_order
    [OF sample_token_client_kind sample_env_simps(1) sample_headers_carry ok decoded items
        accepted accepted_list refl]
  show ?thesis by simp
qed

text \<open>
  Claim C6, as stated: for every release ID for which the service responds with
  status 200 and valid JSON, \<^verbatim>\<open>get_release\<close> returns a \<^verbatim>\<open>Release\<close> entity whose ID field
  equals the requested release ID.

  \<^verbatim>\<open>get_release\<close> uses the requested ID to build the URL and nowhere else: the entity
  is populated from the body alone. A service that answers the request for release 1
  with the object of release 2 yields an entity whose ID is 2; and a body that is
  valid JSON without being an object, such as \<^verbatim>\<open>[]\<close>, yields no entity but the
  \<^verbatim>\<open>TypeError\<close> of \<^verbatim>\<open>Release(**[])\<close>.
\<close>

theorem get_release_id_counterexample:
  "fst (get_release
      (sample_env 200 ''{\"id\": 2, \"title\": \"B\"}'' sample_headers
         (Inr (PDict [(''id'', PInt 2), (''title'', PStr ''B'')]))) 1 sample_token_client)
     = Inr (PEntity Release [(''id'', PInt 2), (''title'', PStr ''B'')])
   \<and> field (PEntity Release [(''id'', PInt 2), (''title'', PStr ''B'')]) ''id'' = Some (PInt 2)
   \<and> field (PEntity Release [(''id'', PInt 2), (''title'', PStr ''B'')]) ''id'' \<noteq> Some (PInt 1)
   \<and> fst (get_release (sample_env 200 ''[]'' sample_headers (Inr (PList []))) 1
        sample_token_client) = Inl TypeError"
  by (simp add: get_release_def
      Client_get_token [OF sample_token_client_kind sample_env_simps(1) sample_headers_carry]
      sample_response_simps sample_env_simps construct_def field_def)

text \<open>
  Claim C6, amended: for every release ID for which the service responds with status
  200 and a JSON object that the \<^verbatim>\<open>Release\<close> class accepts, \<^verbatim>\<open>get_release\<close> returns the
  \<^verbatim>\<open>Release\<close> entity populated from that object, whose ID field is the \<^verbatim>\<open>id\<close> of the
  object (the requested ID whenever the service answers with the release that was
  asked for); for a body that decodes to anything but an object it raises
  \<^verbatim>\<open>TypeError\<close>.
\<close>

theorem get_release_returns_body_entity:
  assumes "kind self = UserTokenClient tok"
    and "requests_request E
           (token_request tok ''GET'' (base_url @ ''/releases/'' @ str_int release_id) PNone PNone)
         = Inr resp"
    and "carries_rate_limits resp a b c"
    and "status_code resp = 200"
    and "json_loads E (content resp) = Inr body"
  shows "(\<forall>kw. body = PDict kw \<and> schema E Release kw = None
            \<longrightarrow> fst (get_release E release_id self) = Inr (PEntity Release kw)
                \<and> field (PEntity Release kw) ''id'' = map_of kw ''id'')
         \<and> ((\<forall>kw. body \<noteq> PDict kw) \<longrightarrow> fst (get_release E release_id self) = Inl TypeError)"
proof -
  have got: "fst (Client_get E (base_url @ ''/releases/'' @ str_int release_id) True self)
      = Inr body"
    using Client_get_token_200 [OF assms(1,2,3,4)] assms(5) by simp
  show ?thesis
    by (cases body) (simp_all add: accessor_on_value(3) [OF got] construct_def field_def)
qed

theorem get_release_returns_body_entity_witness:
  "fst (get_release
      (sample_env 200 ''{\"id\": 1, \"title\": \"A\"}'' sample_headers
         (Inr (PDict [(''id'', PInt 1), (''title'', PStr ''A'')]))) 1 sample_token_client)
     = Inr (PEntity Release [(''id'', PInt 1), (''title'', PStr ''A'')])
   \<and> field (PEntity Release [(''id'', PInt 1), (''title'', PStr ''A'')]) ''id'' = Some (PInt 1)"
proof -
  let ?kw = "[(''id'', PInt 1), (''title'', PStr ''A'')]"
  let ?E = "sample_env 200 ''{\"id\": 1, \"title\": \"A\"}'' sample_headers (Inr (PDict ?kw))"
  have ok: "status_code (sample_response 200 ''{\"id\": 1, \"title\": \"A\"}'' sample_headers) = 200"
    by (simp add: sample_response_simps)
  have decoded: "json_loads ?E (content (sample_response 200 ''{\"id\": 1, \"title\": \"A\"}'' sample_headers)) = Inr (PDict ?kw)"
    by (simp add: sample_env_simps)
  from get_release_returns_body_entity
    [OF sample_token_client_kind sample_env_simps(1) sample_headers_carry ok decoded]
  show ?thesis by (simp add: sample_env_simps)
qed

section \<open>The marketplace page\<close>

text \<open>
  Claim C7, as stated: for every release ID, \<^verbatim>\<open>get_marketplace_listings\<close> fetches
  exactly the URL \<^verbatim>\<open>https://www.discogs.com/sell/release/{id}?ev=rb&sort=price,asc\<close>,
  passes the rendered HTML together with the release ID to the listings parser, and
  returns exactly what the parser returns.

  The URL the code hands to the browser spells the comma of the sort key
  percent-encoded, \<^verbatim>\<open>sort=price%2Casc\<close>; it is not the URL of the statement.
\<close>

theorem marketplace_url_counterexample:
  "snd (snd (get_marketplace_listings (sample_env 200 ''[]'' sample_headers (Inr (PList []))) 1
       sample_anon_client)) =
     [Navigated ''https://www.discogs.com/sell/release/1?ev=rb&sort=price%2Casc'']
   \<and> snd (snd (get_marketplace_listings (sample_env 200 ''[]'' sample_headers (Inr (PList []))) 1
       sample_anon_client)) \<noteq>
     [Navigated ''https://www.discogs.com/sell/release/1?ev=rb&sort=price,asc'']"
  by (simp add: get_marketplace_listings_def sample_anon_client_kind sample_env_simps
      marketplace_url_def base_url_non_api_def str_int_1)

text \<open>
  Claim C7, amended: for every release ID, \<^verbatim>\<open>get_marketplace_listings\<close> navigates
  exactly once, to the URL
  \<^verbatim>\<open>https://www.discogs.com/sell/release/{id}?ev=rb&sort=price%2Casc\<close>; when the browser
  has loaded the page, it passes the page source together with the release ID to the
  listings parser and returns exactly what the parser returns or raises, and the
  driver holds that page.
\<close>

theorem marketplace_listings_from_parser:
  assumes "kind self = AnonClient d"
  shows "snd (snd (get_marketplace_listings E release_id self)) =
           [Navigated (''https://www.discogs.com/sell/release/'' @ str_int release_id
                       @ ''?ev=rb&sort=price%2Casc'')]
         \<and> (\<forall>page. driver_get E (''https://www.discogs.com/sell/release/'' @ str_int release_id
                          @ ''?ev=rb&sort=price%2Casc'') = Inr page
              \<longrightarrow> fst (get_marketplace_listings E release_id self) =
                    scrape_listings_from_marketplace E page release_id
                  \<and> kind (fst (snd (get_marketplace_listings E release_id self))) =
                    AnonClient (d\<lparr>page_source := page\<rparr>))"
  using assms
  by (simp add: get_marketplace_listings_def marketplace_url_def base_url_non_api_def
      split: sum.splits)

theorem marketplace_listings_from_parser_witness:
  "snd (snd (get_marketplace_listings (sample_env 200 ''[]'' sample_headers (Inr (PList []))) 1
       sample_anon_client)) =
     [Navigated ''https://www.discogs.com/sell/release/1?ev=rb&sort=price%2Casc'']
   \<and> fst (get_marketplace_listings (sample_env 200 ''[]'' sample_headers (Inr (PList []))) 1
       sample_anon_client) = Inr (PObject ''Listings'')
   \<and> kind (fst (snd (get_marketplace_listings
       (sample_env 200 ''[]'' sample_headers (Inr (PList []))) 1 sample_anon_client))) =
     AnonClient (sample_driver\<lparr>page_source := ''<html></html>''\<rparr>)"
  using marketplace_listings_from_parser [OF sample_anon_client_kind,
      of "sample_env 200 ''[]'' sample_headers (Inr (PList []))" 1]
  by (simp add: sample_env_simps str_int_1)

end
